theory Spec2Isabelle
  imports Main "HOL-Library.AList" "HOL-Library.Sublist"
begin

section \<open>Python values and the configuration record\<close>

text \<open>
  The tool \<^verbatim>\<open>ssh_push.py\<close> keeps its configuration in a \<^verbatim>\<open>Dict[str, Any]\<close> that is
  read from a JSON file. The values modelled are the JSON scalars without floats:
  \<^verbatim>\<open>None\<close>, booleans, unbounded integers and strings. Floats, arrays and nested objects
  are outside the model. A dictionary is an association list in insertion order with
  one entry per key: \<open>map_of\<close> is the lookup, \<open>AList.update\<close> is the item assignment
  \<^verbatim>\<open>d[k] = v\<close> (in place for a key that is present, appended otherwise), and the empty
  list is the empty (falsy) dictionary. Strings are byte strings, so the string
  functions below are Python's on ASCII text.
\<close>

datatype pyval = PNone | PBool bool | PInt int | PStr string

type_synonym config = "(string \<times> pyval) list"

text \<open>\<^verbatim>\<open>d.get(k, default)\<close>.\<close>

definition dict_get :: "config \<Rightarrow> string \<Rightarrow> pyval \<Rightarrow> pyval" where
  "dict_get d k dflt = (case map_of d k of None \<Rightarrow> dflt | Some v \<Rightarrow> v)"

text \<open>Truth value of an object, as \<^verbatim>\<open>if x:\<close> and \<^verbatim>\<open>x and y\<close> test it.\<close>

fun truthy :: "pyval \<Rightarrow> bool" where
  "truthy PNone = False"
| "truthy (PBool b) = b"
| "truthy (PInt i) = (i \<noteq> 0)"
| "truthy (PStr s) = (s \<noteq> [])"

definition digit_char :: "nat \<Rightarrow> char" where
  "digit_char d = ''0123456789'' ! d"

fun str_of_nat :: "nat \<Rightarrow> string" where
  "str_of_nat n =
     (if n < 10 then [digit_char n] else str_of_nat (n div 10) @ [digit_char (n mod 10)])"

declare str_of_nat.simps [simp del]

definition str_of_int :: "int \<Rightarrow> string" where
  "str_of_int i = (if i < 0 then CHR ''-'' # str_of_nat (nat (- i)) else str_of_nat (nat i))"

text \<open>\<^verbatim>\<open>str(x)\<close>, which is also what an f-string prints for \<^verbatim>\<open>{x}\<close>.\<close>

fun py_str :: "pyval \<Rightarrow> string" where
  "py_str PNone = ''None''"
| "py_str (PBool b) = (if b then ''True'' else ''False'')"
| "py_str (PInt i) = str_of_int i"
| "py_str (PStr s) = s"

fun type_name :: "pyval \<Rightarrow> string" where
  "type_name PNone = ''NoneType''"
| "type_name (PBool b) = ''bool''"
| "type_name (PInt i) = ''int''"
| "type_name (PStr s) = ''str''"

text \<open>
  \<^verbatim>\<open>str.strip()\<close>, \<^verbatim>\<open>str.isdigit()\<close> and \<^verbatim>\<open>int(s)\<close> on a string of digits. The ASCII white
  space of Python is the characters 9 to 13 and 28 to 32.
\<close>

definition is_space :: "char \<Rightarrow> bool" where
  "is_space c = (let n = (of_char c :: nat) in (9 \<le> n \<and> n \<le> 13) \<or> (28 \<le> n \<and> n \<le> 32))"

definition strip :: "string \<Rightarrow> string" where
  "strip s = rev (dropWhile is_space (rev (dropWhile is_space s)))"

definition is_digit :: "char \<Rightarrow> bool" where
  "is_digit c = (let n = (of_char c :: nat) in 48 \<le> n \<and> n \<le> 57)"

definition isdigit :: "string \<Rightarrow> bool" where
  "isdigit s = (s \<noteq> [] \<and> list_all is_digit s)"

definition py_int :: "string \<Rightarrow> int" where
  "py_int s = int (foldl (\<lambda>a c. 10 * a + (of_char c - 48)) 0 s)"

text \<open>\<^verbatim>\<open>' '.join(xs)\<close>.\<close>

fun join_sp :: "string list \<Rightarrow> string" where
  "join_sp [] = []"
| "join_sp [x] = x"
| "join_sp (x # y # ys) = x @ '' '' @ join_sp (y # ys)"

text \<open>\<^verbatim>\<open>needle in haystack\<close> on strings: some suffix of the haystack starts with the needle.\<close>

fun starts_with :: "string \<Rightarrow> string \<Rightarrow> bool" where
  "starts_with [] s = True"
| "starts_with (c # cs) [] = False"
| "starts_with (c # cs) (d # ds) = (c = d \<and> starts_with cs ds)"

fun str_contains :: "string \<Rightarrow> string \<Rightarrow> bool" where
  "str_contains needle [] = (needle = [])"
| "str_contains needle (d # ds) = (starts_with needle (d # ds) \<or> str_contains needle ds)"

section \<open>Exceptions\<close>

text \<open>
  The exceptions that occur in the modelled code: a missing dictionary key, a value of
  the wrong type handed to \<^verbatim>\<open>os.path.expanduser\<close> or \<^verbatim>\<open>subprocess.run\<close>, the end of the
  standard input under \<^verbatim>\<open>input()\<close>, whatever \<^verbatim>\<open>subprocess.run\<close> raises itself
  (\<^verbatim>\<open>TimeoutExpired\<close>, \<^verbatim>\<open>FileNotFoundError\<close>, ...), a method that the object does not
  have, and any other exception (\<^verbatim>\<open>UnicodeDecodeError\<close>, \<^verbatim>\<open>ValueError\<close> and
  \<^verbatim>\<open>RecursionError\<close> of \<^verbatim>\<open>json.load\<close>), each carried with its text. All of them derive
  from \<^verbatim>\<open>Exception\<close>. A function that can let one escape returns \<open>exn + 'a\<close>.
\<close>

datatype exn =
  KeyError string | TypeError string | EOFError | RunError string
  | AttributeError string | OtherError string

fun exn_str :: "exn \<Rightarrow> string" where
  "exn_str (KeyError k) = [CHR 0x27] @ k @ [CHR 0x27]"
| "exn_str (TypeError m) = m"
| "exn_str EOFError = ''EOF when reading a line''"
| "exn_str (RunError m) = m"
| "exn_str (AttributeError m) = m"
| "exn_str (OtherError m) = m"

definition path_type_error :: "pyval \<Rightarrow> exn" where
  "path_type_error v =
     TypeError (''expected str, bytes or os.PathLike object, not '' @ type_name v)"

section \<open>The environment\<close>

text \<open>
  Everything the program reaches outside itself is a field of the state \<open>world\<close>:
  \<^item> \<open>fs\<close>: the local files, path to content (\<open>None\<close>: the path does not exist);
    \<open>read_error\<close> and \<open>write_error\<close> hold the text of the \<^verbatim>\<open>IOError\<close> that opening the
    configuration file for reading, respectively writing, raises, if it does;
  \<^item> \<open>json_dumps\<close> and \<open>json_loads\<close>: the JSON codec of the standard library, not part of
    the repository and so a parameter. Reading a file gives a record (the document is
    an object), another value (it is not), \<^verbatim>\<open>JSONDecodeError\<close> (the text is not JSON),
    or another exception (the bytes are not text in UTF-8, an integer has too many
    digits, the nesting is too deep);
  \<^item> \<open>expanduser\<close>: \<^verbatim>\<open>os.path.expanduser\<close>, which depends on the user's home;
  \<^item> \<open>proc\<close>: what a child process started with an argument list and a timeout does: it
    completes with an exit status, standard output and standard error, or the call
    raises. The answer to a command does not change during a run, and a child process
    does not change the local files;
  \<^item> \<open>procs\<close>: the argument lists of the child processes started so far, in order;
  \<^item> \<open>inputs\<close>: the lines still to be read from the standard input;
  \<^item> \<open>logged\<close>: the calls of the \<^verbatim>\<open>logging\<close> module so far, level and message.
  What \<^verbatim>\<open>print\<close> writes is not modelled.
\<close>

datatype level = DEBUG | INFO | WARNING | ERROR

datatype proc_outcome = Completed int string string | Raises string

datatype json_outcome =
  Decoded config | DecodedOther bool string | JSONDecodeError string | LoadRaises string

record world =
  fs :: "string \<Rightarrow> string option"
  read_error :: "string option"
  write_error :: "string option"
  json_dumps :: "config \<Rightarrow> string"
  json_loads :: "string \<Rightarrow> json_outcome"
  expanduser :: "string \<Rightarrow> string"
  proc :: "string list \<Rightarrow> nat option \<Rightarrow> proc_outcome"
  procs :: "string list list"
  inputs :: "string list"
  logged :: "(level \<times> string) list"

definition path_exists :: "world \<Rightarrow> string \<Rightarrow> bool" where
  "path_exists w p = (fs w p \<noteq> None)"

definition logging :: "level \<Rightarrow> string \<Rightarrow> world \<Rightarrow> world" where
  "logging lvl msg w = w\<lparr>logged := logged w @ [(lvl, msg)]\<rparr>"

text \<open>\<^verbatim>\<open>input(prompt)\<close>: the next line, or \<^verbatim>\<open>EOFError\<close> at the end of the input.\<close>

definition py_input :: "world \<Rightarrow> (exn + string) \<times> world" where
  "py_input w =
     (case inputs w of
        [] \<Rightarrow> (Inl EOFError, w)
      | l # ls \<Rightarrow> (Inr l, w\<lparr>inputs := ls\<rparr>))"

text \<open>
  Statements in sequence: the second runs in the state the first leaves, unless the first
  raised, and then the exception is the result.
\<close>

definition and_then ::
  "(world \<Rightarrow> (exn + 'a) \<times> world) \<Rightarrow> ('a \<Rightarrow> world \<Rightarrow> (exn + 'b) \<times> world)
     \<Rightarrow> world \<Rightarrow> (exn + 'b) \<times> world" where
  "and_then m f w = (case m w of (Inl e, w1) \<Rightarrow> (Inl e, w1) | (Inr a, w1) \<Rightarrow> f a w1)"

definition returning :: "'a \<Rightarrow> world \<Rightarrow> (exn + 'a) \<times> world" where
  "returning a w = (Inr a, w)"

definition raising :: "exn \<Rightarrow> world \<Rightarrow> (exn + 'a) \<times> world" where
  "raising e w = (Inl e, w)"

text \<open>
  \<^verbatim>\<open>subprocess.run(args, capture_output=..., text=True, timeout=...)\<close>. An argument that
  is not a string makes the call raise \<^verbatim>\<open>TypeError\<close> before any process is started.
\<close>

fun str_args :: "pyval list \<Rightarrow> exn + string list" where
  "str_args [] = Inr []"
| "str_args (PStr s # vs) = (case str_args vs of Inl e \<Rightarrow> Inl e | Inr ss \<Rightarrow> Inr (s # ss))"
| "str_args (v # vs) = Inl (path_type_error v)"

definition subprocess_run ::
  "pyval list \<Rightarrow> nat option \<Rightarrow> world \<Rightarrow> (exn + int \<times> string \<times> string) \<times> world" where
  "subprocess_run args timeout w =
     (case str_args args of
        Inl e \<Rightarrow> (Inl e, w)
      | Inr cmd \<Rightarrow>
          (case proc w cmd timeout of
             Completed rc out err \<Rightarrow> (Inr (rc, out, err), w\<lparr>procs := procs w @ [cmd]\<rparr>)
           | Raises m \<Rightarrow> (Inl (RunError m), w\<lparr>procs := procs w @ [cmd]\<rparr>)))"

section \<open>ConfigStore: \<^verbatim>\<open>load_config\<close> and \<^verbatim>\<open>save_config\<close>\<close>

definition CONFIG_FILE :: string where
  "CONFIG_FILE = ''.ssh_push_config.json''"

text \<open>
  What \<^verbatim>\<open>load_config\<close> returns: the record of a JSON object, or the value of a JSON
  document that is not an object, of which the model keeps the truth value and the name
  of the type.
\<close>

datatype loaded = Record config | NotRecord bool string

text \<open>
  \<^verbatim>\<open>load_config\<close> (lines 37 to 46): an absent file gives the empty record; a file that
  cannot be opened, and a text that is not JSON, give a warning and the empty record.
  The handler of line 44 names \<^verbatim>\<open>JSONDecodeError\<close> and \<^verbatim>\<open>IOError\<close> only, so any other
  exception of \<^verbatim>\<open>json.load\<close> leaves the function.
\<close>

definition load_config :: "world \<Rightarrow> (exn + loaded) \<times> world" where
  "load_config w =
     (case fs w CONFIG_FILE of
        None \<Rightarrow> (Inr (Record []), w)
      | Some content \<Rightarrow>
          (case read_error w of
             Some m \<Rightarrow>
               (Inr (Record []), logging WARNING (''Failed to load config file: '' @ m) w)
           | None \<Rightarrow>
               (case json_loads w content of
                  Decoded c \<Rightarrow> (Inr (Record c), w)
                | DecodedOther truth ty \<Rightarrow> (Inr (NotRecord truth ty), w)
                | JSONDecodeError m \<Rightarrow>
                    (Inr (Record []),
                     logging WARNING (''Failed to load config file: '' @ m) w)
                | LoadRaises m \<Rightarrow> (Inl (OtherError m), w))))"

text \<open>
  \<^verbatim>\<open>save_config\<close> (lines 48 to 56): writes the serialised record, or logs the
  \<^verbatim>\<open>IOError\<close> and leaves the file as it was.
\<close>

definition save_config :: "config \<Rightarrow> world \<Rightarrow> world" where
  "save_config c w =
     (case write_error w of
        None \<Rightarrow>
          logging INFO (''Configuration saved to '' @ CONFIG_FILE)
            (w\<lparr>fs := (fs w)(CONFIG_FILE \<mapsto> json_dumps w c)\<rparr>)
      | Some m \<Rightarrow> logging ERROR (''Failed to save config: '' @ m) w)"

section \<open>Remote shell commands\<close>

text \<open>
  The four functions that start a child process choose the private key in the same way
  (lines 206 to 208, 264 to 266, 303 to 305 and 329 to 331): with key authentication and
  a truthy \<^verbatim>\<open>key_path\<close>, the expanded path is used when it exists on disk.
\<close>

definition key_file :: "config \<Rightarrow> world \<Rightarrow> exn + string option" where
  "key_file c w =
     (if map_of c ''auth_method'' = Some (PStr ''key'') \<and> truthy (dict_get c ''key_path'' PNone)
      then (case dict_get c ''key_path'' PNone of
              PStr p \<Rightarrow>
                (let key_path = expanduser w p
                 in if path_exists w key_path then Inr (Some key_path) else Inr None)
            | v \<Rightarrow> Inl (path_type_error v))
      else Inr None)"

text \<open>
  The \<^verbatim>\<open>ssh\<close> argument list for a remote command (lines 199 to 209, 296 to 306 and
  321 to 332); the host name is passed on as the value the record holds.
\<close>

definition ssh_command :: "config \<Rightarrow> string \<Rightarrow> world \<Rightarrow> exn + pyval list" where
  "ssh_command c remote_cmd w =
     (case map_of c ''hostname'' of
        None \<Rightarrow> Inl (KeyError ''hostname'')
      | Some hostname \<Rightarrow>
          (let port = dict_get c ''port'' (PInt 22)
           in case key_file c w of
                Inl e \<Rightarrow> Inl e
              | Inr None \<Rightarrow>
                  Inr [PStr ''ssh'', PStr ''-p'', PStr (py_str port), hostname, PStr remote_cmd]
              | Inr (Some key_path) \<Rightarrow>
                  Inr [PStr ''ssh'', PStr ''-i'', PStr key_path, PStr ''-p'', PStr (py_str port),
                       hostname, PStr remote_cmd]))"

text \<open>Building the command and running it with the timeout of 10 seconds.\<close>

definition ssh_run ::
  "config \<Rightarrow> string \<Rightarrow> world \<Rightarrow> (exn + int \<times> string \<times> string) \<times> world" where
  "ssh_run c remote_cmd w =
     (case ssh_command c remote_cmd w of
        Inl e \<Rightarrow> (Inl e, w)
      | Inr cmd \<Rightarrow> subprocess_run cmd (Some 10) w)"

definition probe_marker :: string where
  "probe_marker = ''SSH connection test successful''"

definition probe_command :: string where
  "probe_command = ''echo \"SSH connection test successful\"''"

text \<open>\<^verbatim>\<open>test_ssh_connection\<close> (lines 196 to 215).\<close>

definition test_ssh_connection :: "config \<Rightarrow> world \<Rightarrow> bool \<times> world" where
  "test_ssh_connection c w =
     (case ssh_run c probe_command w of
        (Inl e, w1) \<Rightarrow> (False, logging DEBUG (''SSH connection test failed: '' @ exn_str e) w1)
      | (Inr (rc, out, err), w1) \<Rightarrow> (rc = 0 \<and> str_contains probe_marker out, w1))"

text \<open>\<^verbatim>\<open>ensure_remote_directory\<close> (lines 293 to 312).\<close>

definition ensure_remote_directory :: "config \<Rightarrow> pyval \<Rightarrow> world \<Rightarrow> bool \<times> world" where
  "ensure_remote_directory c remote_dir w =
     (case ssh_run c (''mkdir -p '' @ py_str remote_dir) w of
        (Inl e, w1) \<Rightarrow>
          (False, logging DEBUG (''Failed to create remote directory: '' @ exn_str e) w1)
      | (Inr (rc, out, err), w1) \<Rightarrow> (rc = 0, w1))"

text \<open>\<^verbatim>\<open>list_remote_files\<close> (lines 314 to 347).\<close>

definition list_remote_files :: "config \<Rightarrow> world \<Rightarrow> bool \<times> world" where
  "list_remote_files c w =
     (if c = [] then (False, logging ERROR ''No SSH configuration found. Run --setup first.'' w)
      else
        (case (case map_of c ''hostname'' of
                 None \<Rightarrow> (Inl (KeyError ''hostname''), w)
               | Some hostname \<Rightarrow>
                   (case map_of c ''remote_dir'' of
                      None \<Rightarrow> (Inl (KeyError ''remote_dir''), w)
                    | Some remote_dir \<Rightarrow> ssh_run c (''ls -la '' @ py_str remote_dir) w)) of
           (Inl e, w1) \<Rightarrow> (False, logging ERROR (''Error listing remote files: '' @ exn_str e) w1)
         | (Inr (rc, out, err), w1) \<Rightarrow>
             (if rc = 0 then (True, w1)
              else (False, logging ERROR (''Failed to list remote files: '' @ err) w1))))"

section \<open>FilePusher: \<^verbatim>\<open>push_files\<close>\<close>

text \<open>The check mark and the cross of the status lines, as their UTF-8 bytes.\<close>

definition check_mark :: string where
  "check_mark = [CHR 0xE2, CHR 0x9C, CHR 0x93]"

definition cross_mark :: string where
  "cross_mark = [CHR 0xE2, CHR 0x9C, CHR 0x97]"

text \<open>The \<^verbatim>\<open>scp\<close> argument list for one file (lines 261 to 274).\<close>

definition scp_command ::
  "config \<Rightarrow> pyval \<Rightarrow> pyval \<Rightarrow> pyval \<Rightarrow> bool \<Rightarrow> string \<Rightarrow> world \<Rightarrow> exn + string list" where
  "scp_command c hostname port remote_dir verbose file_path w =
     (case key_file c w of
        Inl e \<Rightarrow> Inl e
      | Inr k \<Rightarrow>
          Inr ([''scp'', ''-P'', py_str port]
               @ (case k of None \<Rightarrow> [] | Some key_path \<Rightarrow> [''-i'', key_path])
               @ (if verbose then [''-v''] else [])
               @ [file_path, py_str hostname @ '':'' @ py_str remote_dir @ ''/'']))"

text \<open>
  The body of the \<^verbatim>\<open>try\<close> of the loop (lines 259 to 288) for a file that exists: the
  result says whether the success counter is incremented. With \<^verbatim>\<open>verbose\<close> the output
  of the child is not captured and \<^verbatim>\<open>result.stderr\<close> is \<^verbatim>\<open>None\<close>.
\<close>

definition push_one ::
  "config \<Rightarrow> pyval \<Rightarrow> pyval \<Rightarrow> pyval \<Rightarrow> bool \<Rightarrow> string \<Rightarrow> world \<Rightarrow> bool \<times> world" where
  "push_one c hostname port remote_dir verbose file_path w =
     (case scp_command c hostname port remote_dir verbose file_path w of
        Inl e \<Rightarrow>
          (False,
           logging ERROR (cross_mark @ '' Error pushing '' @ file_path @ '': '' @ exn_str e) w)
      | Inr scp_cmd \<Rightarrow>
          (let w1 = (if verbose then logging INFO (''Executing: '' @ join_sp scp_cmd) w else w)
           in case subprocess_run (map PStr scp_cmd) None w1 of
                (Inl e, w2) \<Rightarrow>
                  (False,
                   logging ERROR
                     (cross_mark @ '' Error pushing '' @ file_path @ '': '' @ exn_str e) w2)
              | (Inr (rc, out, err), w2) \<Rightarrow>
                  (if rc = 0
                   then (True, logging INFO (check_mark @ '' Pushed: '' @ file_path) w2)
                   else (False,
                         logging ERROR
                           (cross_mark @ '' Failed to push '' @ file_path @ '': ''
                            @ (if verbose then ''None'' else err)) w2))))"

text \<open>The loop over the files (lines 254 to 288), with the success counter.\<close>

fun push_loop ::
  "config \<Rightarrow> pyval \<Rightarrow> pyval \<Rightarrow> pyval \<Rightarrow> bool \<Rightarrow> string list \<Rightarrow> nat \<Rightarrow> world \<Rightarrow> nat \<times> world" where
  "push_loop c hostname port remote_dir verbose [] success_count w = (success_count, w)"
| "push_loop c hostname port remote_dir verbose (file_path # rest) success_count w =
     (if \<not> path_exists w file_path
      then push_loop c hostname port remote_dir verbose rest success_count
             (logging WARNING (''File not found: '' @ file_path) w)
      else (case push_one c hostname port remote_dir verbose file_path w of
              (pushed, w1) \<Rightarrow>
                push_loop c hostname port remote_dir verbose rest
                  (if pushed then success_count + 1 else success_count) w1))"

text \<open>
  \<^verbatim>\<open>push_files\<close> (lines 232 to 291). The lookups \<^verbatim>\<open>config['hostname']\<close> and
  \<^verbatim>\<open>config['remote_dir']\<close> stand outside every \<^verbatim>\<open>try\<close>, so a missing key leaves the
  function as a \<^verbatim>\<open>KeyError\<close>.
\<close>

definition push_files :: "string list \<Rightarrow> config \<Rightarrow> bool \<Rightarrow> world \<Rightarrow> (exn + bool) \<times> world" where
  "push_files files c verbose w =
     (if c = [] then
        (Inr False, logging ERROR ''No SSH configuration found. Run --setup first.'' w)
      else if files = [] then
        (Inr False, logging ERROR ''No files specified to push.'' w)
      else
        (case map_of c ''hostname'' of
           None \<Rightarrow> (Inl (KeyError ''hostname''), w)
         | Some hostname \<Rightarrow>
             (let port = dict_get c ''port'' (PInt 22)
              in case map_of c ''remote_dir'' of
                   None \<Rightarrow> (Inl (KeyError ''remote_dir''), w)
                 | Some remote_dir \<Rightarrow>
                     (case ensure_remote_directory c remote_dir w of
                        (ensured, w1) \<Rightarrow>
                          if \<not> ensured then
                            (Inr False,
                             logging ERROR
                               (''Failed to create remote directory: '' @ py_str remote_dir) w1)
                          else
                            (case push_loop c hostname port remote_dir verbose files 0 w1 of
                               (success_count, w2) \<Rightarrow>
                                 (Inr (success_count = length files),
                                  logging INFO
                                    (''Push complete: '' @ str_of_nat success_count @ ''/''
                                     @ str_of_nat (length files)
                                     @ '' files transferred successfully'') w2))))))"

section \<open>InteractiveConfigurator: \<^verbatim>\<open>setup_ssh_config\<close> and \<^verbatim>\<open>edit_ssh_config\<close>\<close>

text \<open>
  The three \<^verbatim>\<open>while True\<close> loops of \<^verbatim>\<open>setup_ssh_config\<close> read lines until one is
  accepted; each round consumes a line, and the end of the input raises \<^verbatim>\<open>EOFError\<close>.
  They are recursions over the lines still to be read.
\<close>

datatype menu_choice = EditExisting | Overwrite | Cancel

text \<open>Lines 77 to 88.\<close>

fun read_option :: "string list \<Rightarrow> (exn + menu_choice) \<times> string list" where
  "read_option [] = (Inl EOFError, [])"
| "read_option (l # ls) =
     (let choice = strip l
      in if choice = ''1'' then (Inr EditExisting, ls)
         else if choice = ''2'' then (Inr Overwrite, ls)
         else if choice = ''3'' then (Inr Cancel, ls)
         else read_option ls)"

text \<open>Lines 96 to 101.\<close>

fun read_hostname :: "string list \<Rightarrow> (exn + string) \<times> string list" where
  "read_hostname [] = (Inl EOFError, [])"
| "read_hostname (l # ls) =
     (let hostname = strip l
      in if hostname \<noteq> [] then (Inr hostname, ls) else read_hostname ls)"

text \<open>Lines 116 to 124: the value stored under \<^verbatim>\<open>auth_method\<close>.\<close>

fun read_auth :: "string list \<Rightarrow> (exn + string) \<times> string list" where
  "read_auth [] = (Inl EOFError, [])"
| "read_auth (l # ls) =
     (let auth_choice = strip l
      in if auth_choice = ''1'' then (Inr ''key'', ls)
         else if auth_choice = ''2'' then (Inr ''password'', ls)
         else read_auth ls)"

definition on_inputs :: "(string list \<Rightarrow> (exn + 'a) \<times> string list) \<Rightarrow> world \<Rightarrow> (exn + 'a) \<times> world" where
  "on_inputs rd w = (case rd (inputs w) of (r, ls) \<Rightarrow> (r, w\<lparr>inputs := ls\<rparr>))"

text \<open>
  The prompts of the create flow (lines 93 to 129): the record is built from the empty
  dictionary.
\<close>

definition create_prompts :: "world \<Rightarrow> (exn + config) \<times> world" where
  "create_prompts =
     and_then (on_inputs read_hostname) (\<lambda>hostname.
       let c1 = AList.update ''hostname'' (PStr hostname) []
       in and_then py_input (\<lambda>l2.
         let port = strip l2;
             c2 = AList.update ''port'' (PInt (if isdigit port then py_int port else 22)) c1
         in and_then py_input (\<lambda>l3.
           let remote_dir = strip l3;
               c3 = AList.update ''remote_dir''
                      (PStr (if remote_dir \<noteq> [] then remote_dir else ''~/fpga_work'')) c2
           in and_then (on_inputs read_auth) (\<lambda>auth.
             let c4 = AList.update ''auth_method'' (PStr auth) c3
             in if map_of c4 ''auth_method'' = Some (PStr ''key'') then
                  and_then py_input (\<lambda>l5.
                    let key_path = strip l5
                    in returning
                         (AList.update ''key_path''
                            (PStr (if key_path \<noteq> [] then key_path else ''~/.ssh/id_rsa'')) c4))
                else returning c4))))"

text \<open>
  The prompts of the edit flow (lines 147 to 184), on a copy of the existing record. The
  test of line 180 indexes the record, so a record without \<^verbatim>\<open>auth_method\<close> whose
  user keeps the current method raises \<^verbatim>\<open>KeyError\<close>.
\<close>

definition edit_prompts :: "config \<Rightarrow> world \<Rightarrow> (exn + config) \<times> world" where
  "edit_prompts existing_config =
     and_then py_input (\<lambda>l1.
       let hostname = strip l1;
           c1 = (if hostname \<noteq> [] then AList.update ''hostname'' (PStr hostname) existing_config
                 else existing_config)
       in and_then py_input (\<lambda>l2.
         let port = strip l2;
             c2 = (if isdigit port then AList.update ''port'' (PInt (py_int port)) c1 else c1)
         in and_then py_input (\<lambda>l3.
           let remote_dir = strip l3;
               c3 = (if remote_dir \<noteq> [] then AList.update ''remote_dir'' (PStr remote_dir) c2
                     else c2)
           in and_then py_input (\<lambda>l4.
             let auth_choice = strip l4;
                 c4 = (if auth_choice = ''1'' then AList.update ''auth_method'' (PStr ''key'') c3
                       else if auth_choice = ''2''
                       then AList.update ''auth_method'' (PStr ''password'') c3
                       else c3)
             in case map_of c4 ''auth_method'' of
                  None \<Rightarrow> raising (KeyError ''auth_method'')
                | Some auth \<Rightarrow>
                    if auth = PStr ''key'' then
                      and_then py_input (\<lambda>l5.
                        let key_path = strip l5
                        in returning
                             (if key_path \<noteq> [] then AList.update ''key_path'' (PStr key_path) c4
                              else c4))
                    else returning c4))))"

text \<open>
  The end of both flows (lines 131 to 139 and 186 to 194): the record is saved and
  returned when the probe succeeds, and the empty record is returned otherwise.
\<close>

definition probe_and_save :: "config \<Rightarrow> world \<Rightarrow> (exn + config) \<times> world" where
  "probe_and_save c w =
     (case test_ssh_connection c w of
        (connected, w1) \<Rightarrow> if connected then (Inr c, save_config c w1) else (Inr [], w1))"

text \<open>\<^verbatim>\<open>edit_ssh_config\<close> (lines 141 to 194).\<close>

definition edit_ssh_config :: "config \<Rightarrow> world \<Rightarrow> (exn + config) \<times> world" where
  "edit_ssh_config existing_config = and_then (edit_prompts existing_config) probe_and_save"

text \<open>The create flow proper (lines 90 to 139).\<close>

definition create_config :: "world \<Rightarrow> (exn + config) \<times> world" where
  "create_config = and_then create_prompts probe_and_save"

text \<open>
  \<^verbatim>\<open>setup_ssh_config\<close> (lines 58 to 139). A loaded value that is truthy and not a record
  has no \<^verbatim>\<open>items\<close> (line 66).
\<close>

definition setup_ssh_config :: "world \<Rightarrow> (exn + config) \<times> world" where
  "setup_ssh_config =
     and_then load_config
       (\<lambda>existing. case existing of
          NotRecord truth ty \<Rightarrow>
            if truth then
              raising (AttributeError
                         ([CHR 0x27] @ ty @ [CHR 0x27] @ '' object has no attribute ''
                          @ [CHR 0x27] @ ''items'' @ [CHR 0x27]))
            else create_config
        | Record existing_config \<Rightarrow>
            if existing_config \<noteq> [] then
              and_then (on_inputs read_option)
                (\<lambda>choice. case choice of
                             EditExisting \<Rightarrow> edit_ssh_config existing_config
                           | Overwrite \<Rightarrow> create_config
                           | Cancel \<Rightarrow> returning [])
            else create_config)"

section \<open>Notions used by the properties\<close>

text \<open>
  The copy of one file succeeds: the \<^verbatim>\<open>scp\<close> command that \<open>push_one\<close> builds for it can
  be built and its child process exits with status 0. A file is pushed when it exists
  locally and its copy succeeds.
\<close>

definition copy_exit_ok ::
  "config \<Rightarrow> pyval \<Rightarrow> pyval \<Rightarrow> pyval \<Rightarrow> bool \<Rightarrow> world \<Rightarrow> string \<Rightarrow> bool" where
  "copy_exit_ok c hostname port remote_dir verbose w file_path =
     (case scp_command c hostname port remote_dir verbose file_path w of
        Inl e \<Rightarrow> False
      | Inr scp_cmd \<Rightarrow>
          (case proc w scp_cmd None of
             Completed rc out err \<Rightarrow> rc = 0
           | Raises m \<Rightarrow> False))"

definition file_pushed ::
  "config \<Rightarrow> pyval \<Rightarrow> pyval \<Rightarrow> pyval \<Rightarrow> bool \<Rightarrow> world \<Rightarrow> string \<Rightarrow> bool" where
  "file_pushed c hostname port remote_dir verbose w file_path =
     (path_exists w file_path \<and> copy_exit_ok c hostname port remote_dir verbose w file_path)"

text \<open>A child process that is a remote copy, respectively a remote shell.\<close>

definition is_copy :: "string list \<Rightarrow> bool" where
  "is_copy cmd = (take 1 cmd = [''scp''])"

definition is_shell :: "string list \<Rightarrow> bool" where
  "is_shell cmd = (take 1 cmd = [''ssh''])"




text \<open>Two states with the same files, child processes, home directory and codec.\<close>

definition same_env :: "world \<Rightarrow> world \<Rightarrow> bool" where
  "same_env w' w =
     (fs w' = fs w \<and> proc w' = proc w \<and> expanduser w' = expanduser w
      \<and> write_error w' = write_error w \<and> json_dumps w' = json_dumps w)"

text \<open>
  Two notions for the prompt sequences: a computation that changes nothing but the lines
  still to be read, and a predicate that holds for every value a computation returns.
\<close>

definition inputs_only :: "(world \<Rightarrow> 'r \<times> world) \<Rightarrow> bool" where
  "inputs_only m = (\<forall>w. \<exists>ls. snd (m w) = w\<lparr>inputs := ls\<rparr>)"




section \<open>A concrete environment\<close>

text \<open>
  The record of the end-to-end scenario, and an environment in which the files
  \<^verbatim>\<open>a.txt\<close> and \<^verbatim>\<open>b.txt\<close> and the private key exist, every remote shell command
  succeeds and prints the marker, and every copy succeeds but that of \<^verbatim>\<open>b.txt\<close>. Its
  JSON codec is a stand-in that knows three documents: the record of the scenario, the
  empty array, and the single byte 255, which is not text in UTF-8.
\<close>

definition example_config :: config where
  "example_config =
     [(''hostname'', PStr ''user@host''), (''port'', PInt 22), (''remote_dir'', PStr ''~/work''),
      (''auth_method'', PStr ''key''), (''key_path'', PStr ''~/.ssh/id_rsa'')]"

definition example_dumps :: "config \<Rightarrow> string" where
  "example_dumps c = concat (map (\<lambda>(k, v). k @ ''='' @ py_str v @ '';'') c)"

definition example_loads :: "string \<Rightarrow> json_outcome" where
  "example_loads s =
     (if s = example_dumps example_config then Decoded example_config
      else if s = [CHR 0xFF] then
        LoadRaises ([CHR 0x27] @ ''utf-8'' @ [CHR 0x27] @ '' codec can'' @ [CHR 0x27]
                    @ ''t decode byte 0xff in position 0: invalid start byte'')
      else if s = ''[]'' then DecodedOther False ''list''
      else JSONDecodeError ''Expecting value: line 1 column 1 (char 0)'')"

definition example_proc :: "string list \<Rightarrow> nat option \<Rightarrow> proc_outcome" where
  "example_proc cmd timeout =
     (if take 1 cmd = [''ssh''] then Completed 0 (''SSH connection test successful'' @ [CHR 0x0A]) []
      else if take 1 cmd = [''scp''] then
        (if ''b.txt'' \<in> set cmd then Completed 1 [] ''lost connection'' else Completed 0 [] [])
      else Raises ''No such file or directory'')"

definition example_world :: world where
  "example_world =
     \<lparr>fs = map_of [(''a.txt'', ''A''), (''b.txt'', ''B''), (''/home/user/.ssh/id_rsa'', ''KEY'')],
      read_error = None,
      write_error = None,
      json_dumps = example_dumps,
      json_loads = example_loads,
      expanduser = (\<lambda>p. if take 2 p = ''~/'' then ''/home/user/'' @ drop 2 p else p),
      proc = example_proc,
      procs = [],
      inputs = [],
      logged = []\<rparr>"

text \<open>The same environment with the remote host unreachable for the remote shell.\<close>

definition offline_proc :: "string list \<Rightarrow> nat option \<Rightarrow> proc_outcome" where
  "offline_proc cmd timeout =
     (if take 1 cmd = [''scp''] then Completed 0 [] []
      else Completed 255 [] ''ssh: connect to host host port 22: Connection refused'')"

definition offline_world :: world where
  "offline_world = example_world\<lparr>proc := offline_proc\<rparr>"

section \<open>Frame lemmas\<close>

text \<open>Logging touches nothing but the log.\<close>

lemma logging_fields [simp]:
  "fs (logging lvl msg w) = fs w"
  "proc (logging lvl msg w) = proc w"
  "procs (logging lvl msg w) = procs w"
  "expanduser (logging lvl msg w) = expanduser w"
  "inputs (logging lvl msg w) = inputs w"
  "read_error (logging lvl msg w) = read_error w"
  "write_error (logging lvl msg w) = write_error w"
  "json_dumps (logging lvl msg w) = json_dumps w"
  "json_loads (logging lvl msg w) = json_loads w"
  by (simp_all add: logging_def)

text \<open>Starting a child process extends the trace and changes nothing else.\<close>

lemma subprocess_run_fields [simp]:
  "fs (snd (subprocess_run args t w)) = fs w"
  "proc (snd (subprocess_run args t w)) = proc w"
  "expanduser (snd (subprocess_run args t w)) = expanduser w"
  "inputs (snd (subprocess_run args t w)) = inputs w"
  "read_error (snd (subprocess_run args t w)) = read_error w"
  "write_error (snd (subprocess_run args t w)) = write_error w"
  "json_dumps (snd (subprocess_run args t w)) = json_dumps w"
  "json_loads (snd (subprocess_run args t w)) = json_loads w"
  by (simp_all add: subprocess_run_def split: sum.splits proc_outcome.splits)

lemma ssh_run_fields [simp]:
  "fs (snd (ssh_run c r w)) = fs w"
  "proc (snd (ssh_run c r w)) = proc w"
  "expanduser (snd (ssh_run c r w)) = expanduser w"
  "inputs (snd (ssh_run c r w)) = inputs w"
  "read_error (snd (ssh_run c r w)) = read_error w"
  "write_error (snd (ssh_run c r w)) = write_error w"
  "json_dumps (snd (ssh_run c r w)) = json_dumps w"
  "json_loads (snd (ssh_run c r w)) = json_loads w"
  by (simp_all add: ssh_run_def split: sum.splits)

lemma test_ssh_connection_fields [simp]:
  "fs (snd (test_ssh_connection c w)) = fs w"
  "proc (snd (test_ssh_connection c w)) = proc w"
  "expanduser (snd (test_ssh_connection c w)) = expanduser w"
  "inputs (snd (test_ssh_connection c w)) = inputs w"
  "read_error (snd (test_ssh_connection c w)) = read_error w"
  "write_error (snd (test_ssh_connection c w)) = write_error w"
  "json_dumps (snd (test_ssh_connection c w)) = json_dumps w"
  "json_loads (snd (test_ssh_connection c w)) = json_loads w"
  by (simp_all add: test_ssh_connection_def split_beta split: sum.splits)

lemma ensure_remote_directory_fields [simp]:
  "fs (snd (ensure_remote_directory c rd w)) = fs w"
  "proc (snd (ensure_remote_directory c rd w)) = proc w"
  "expanduser (snd (ensure_remote_directory c rd w)) = expanduser w"
  "inputs (snd (ensure_remote_directory c rd w)) = inputs w"
  by (simp_all add: ensure_remote_directory_def split_beta split: sum.splits)

section \<open>FilePusher: the guards\<close>

text \<open>
  Claim C2. \<^verbatim>\<open>push_files\<close> returns \<^verbatim>\<open>False\<close> at once when the configuration is empty,
  whatever the list of paths, and when the list of paths is empty, whatever the
  configuration. Its only effect is one error line in the log: no child process is
  started, neither for the remote directory nor for a copy.
\<close>

theorem push_rejects_empty:
  "push_files files [] verbose w
     = (Inr False, logging ERROR ''No SSH configuration found. Run --setup first.'' w)
   \<and> fst (push_files [] c verbose w) = Inr False
   \<and> snd (push_files [] c verbose w)
       = logging ERROR (if c = [] then ''No SSH configuration found. Run --setup first.''
                        else ''No files specified to push.'') w
   \<and> procs (snd (push_files files [] verbose w)) = procs w
   \<and> procs (snd (push_files [] c verbose w)) = procs w"
  by (simp add: push_files_def)

theorem push_rejects_empty_witness:
  "fst (push_files [''a.txt''] [] False example_world) = Inr False
   \<and> fst (push_files [] example_config False example_world) = Inr False
   \<and> procs (snd (push_files [''a.txt''] [] False example_world)) = []
   \<and> procs (snd (push_files [] example_config False example_world)) = []"
  using push_rejects_empty [of "[''a.txt'']" False example_world example_config]
  by (simp add: example_world_def)

section \<open>ConnectionProbe\<close>

text \<open>The substring test of the probe is the sublist relation of the library.\<close>

lemma starts_with_prefix: "starts_with n s = prefix n s"
  by (induction n s rule: starts_with.induct) auto

lemma str_contains_sublist: "str_contains n s = sublist n s"
  by (induction s) (auto simp: starts_with_prefix sublist_Cons_right)

text \<open>
  Claim C3. For every configuration the probe returns \<^verbatim>\<open>True\<close> exactly when the remote
  shell command was built and run, exited with status 0 and printed the marker somewhere
  in its standard output. It returns \<^verbatim>\<open>False\<close> whenever building or running the command
  raised (a missing host name, a value of the wrong type, a timeout, a missing binary),
  and whenever the exit status is not 0 or the marker is absent. The result type of the
  probe has no exception: nothing escapes it.
\<close>

theorem probe_true_only_on_success:
  "(fst (test_ssh_connection c w)
      \<longleftrightarrow> (\<exists>out err. fst (ssh_run c probe_command w) = Inr (0, out, err) \<and> sublist probe_marker out))
   \<and> (\<forall>e. fst (ssh_run c probe_command w) = Inl e \<longrightarrow> \<not> fst (test_ssh_connection c w))
   \<and> (\<forall>rc out err. fst (ssh_run c probe_command w) = Inr (rc, out, err)
         \<longrightarrow> rc \<noteq> 0 \<or> \<not> sublist probe_marker out \<longrightarrow> \<not> fst (test_ssh_connection c w))
   \<and> (\<forall>cmd scmd m. ssh_command c probe_command w = Inr cmd \<longrightarrow> str_args cmd = Inr scmd
         \<longrightarrow> proc w scmd (Some 10) = Raises m \<longrightarrow> \<not> fst (test_ssh_connection c w))"
  by (auto simp: test_ssh_connection_def str_contains_sublist ssh_run_def subprocess_run_def
           split: prod.splits sum.splits)

theorem probe_true_only_on_success_witness:
  "fst (test_ssh_connection example_config example_world)
   \<and> fst (ssh_run example_config probe_command example_world)
       = Inr (0, ''SSH connection test successful'' @ [CHR 0x0A], [])
   \<and> \<not> fst (test_ssh_connection example_config offline_world)
   \<and> \<not> fst (test_ssh_connection [(''port'', PInt 22)] example_world)"
  using probe_true_only_on_success [of example_config example_world]
  by (simp add: test_ssh_connection_def ssh_run_def subprocess_run_def ssh_command_def
        example_config_def example_world_def offline_world_def offline_proc_def example_proc_def key_file_def dict_get_def
        path_exists_def str_of_int_def str_of_nat.simps digit_char_def probe_command_def
        probe_marker_def)

section \<open>ConfigStore\<close>

text \<open>
  Loading when the configuration file is absent gives the empty record and has no
  effect. Loading a text that is not JSON gives the empty record and one warning in the
  log. After a successful save, loading gives what the codec reads from what it wrote.
\<close>

lemma load_config_absent:
  "fs w CONFIG_FILE = None \<Longrightarrow> load_config w = (Inr (Record []), w)"
  by (simp add: load_config_def)

lemma load_config_not_json:
  "fs w CONFIG_FILE = Some content \<Longrightarrow> read_error w = None
     \<Longrightarrow> json_loads w content = JSONDecodeError m
     \<Longrightarrow> load_config w
           = (Inr (Record []), logging WARNING (''Failed to load config file: '' @ m) w)"
  by (simp add: load_config_def)

lemma load_config_after_save:
  "write_error w = None \<Longrightarrow> read_error w = None
     \<Longrightarrow> json_loads w (json_dumps w c) = Decoded c'
     \<Longrightarrow> load_config (save_config c w) = (Inr (Record c'), save_config c w)"
  by (simp add: load_config_def save_config_def)

text \<open>
  Claim C4 fails on a configuration file that \<^verbatim>\<open>json.load\<close> cannot read for another
  reason than its JSON syntax, such as bytes that are not text in UTF-8: the handler of
  line 44 catches \<^verbatim>\<open>JSONDecodeError\<close> and \<^verbatim>\<open>IOError\<close> only, so the exception leaves
  \<^verbatim>\<open>load_config\<close>, and \<^verbatim>\<open>setup_ssh_config\<close> with it, where the claim promises the empty
  record and a warning. Nothing is logged.
\<close>

theorem load_config_lets_other_errors_escape:
  assumes "fs w CONFIG_FILE = Some content" and "read_error w = None"
    and "json_loads w content = LoadRaises m"
  shows "load_config w = (Inl (OtherError m), w)
         \<and> setup_ssh_config w = (Inl (OtherError m), w)"
  using assms by (simp add: load_config_def setup_ssh_config_def and_then_def)

theorem load_config_lets_other_errors_escape_witness:
  "fst (load_config (example_world\<lparr>fs := [CONFIG_FILE \<mapsto> [CHR 0xFF]]\<rparr>))
     = Inl (OtherError ([CHR 0x27] @ ''utf-8'' @ [CHR 0x27] @ '' codec can'' @ [CHR 0x27]
                        @ ''t decode byte 0xff in position 0: invalid start byte''))
   \<and> logged (snd (load_config (example_world\<lparr>fs := [CONFIG_FILE \<mapsto> [CHR 0xFF]]\<rparr>))) = []
   \<and> fst (load_config (example_world\<lparr>fs := [CONFIG_FILE \<mapsto> ''{'']\<rparr>)) = Inr (Record [])
   \<and> logged (snd (load_config (example_world\<lparr>fs := [CONFIG_FILE \<mapsto> ''{'']\<rparr>)))
       = [(WARNING, ''Failed to load config file: Expecting value: line 1 column 1 (char 0)'')]"
proof -
  let ?w = "example_world\<lparr>fs := [CONFIG_FILE \<mapsto> [CHR 0xFF]]\<rparr>"
  let ?m = "[CHR 0x27] @ ''utf-8'' @ [CHR 0x27] @ '' codec can'' @ [CHR 0x27]
            @ ''t decode byte 0xff in position 0: invalid start byte''"
  have stored: "fs ?w CONFIG_FILE = Some [CHR 0xFF]" "read_error ?w = None"
    by (simp_all add: example_world_def)
  have codec: "json_loads ?w [CHR 0xFF] = LoadRaises ?m"
    by (simp add: example_world_def example_loads_def example_dumps_def example_config_def)
  have other: "fst (load_config (example_world\<lparr>fs := [CONFIG_FILE \<mapsto> ''{'']\<rparr>)) = Inr (Record [])
     \<and> logged (snd (load_config (example_world\<lparr>fs := [CONFIG_FILE \<mapsto> ''{'']\<rparr>)))
         = [(WARNING, ''Failed to load config file: Expecting value: line 1 column 1 (char 0)'')]"
    by (simp add: load_config_def example_world_def example_loads_def example_dumps_def
          example_config_def logging_def)
  from load_config_lets_other_errors_escape [OF stored codec] other
  show ?thesis by (simp add: example_world_def)
qed

section \<open>FilePusher: missing fields\<close>

text \<open>
  Claim C10. With a non-empty configuration and a non-empty list of paths,
  \<^verbatim>\<open>push_files\<close> raises \<^verbatim>\<open>KeyError\<close> when the configuration has no \<^verbatim>\<open>hostname\<close>, and when
  it has a \<^verbatim>\<open>hostname\<close> but no \<^verbatim>\<open>remote_dir\<close>; nothing has been done by then. With
  both fields it always returns a boolean. The probe and the remote lister return
  \<^verbatim>\<open>False\<close> on such configurations instead of raising.
\<close>

theorem push_needs_hostname_and_remote_dir:
  "(c \<noteq> [] \<and> files \<noteq> [] \<and> map_of c ''hostname'' = None
      \<longrightarrow> push_files files c verbose w = (Inl (KeyError ''hostname''), w))
   \<and> (c \<noteq> [] \<and> files \<noteq> [] \<and> map_of c ''hostname'' \<noteq> None \<and> map_of c ''remote_dir'' = None
      \<longrightarrow> push_files files c verbose w = (Inl (KeyError ''remote_dir''), w))
   \<and> (map_of c ''hostname'' \<noteq> None \<and> map_of c ''remote_dir'' \<noteq> None
      \<longrightarrow> (\<exists>b. fst (push_files files c verbose w) = Inr b))
   \<and> (map_of c ''hostname'' = None \<longrightarrow> \<not> fst (test_ssh_connection c w))
   \<and> (map_of c ''hostname'' = None \<or> map_of c ''remote_dir'' = None
      \<longrightarrow> \<not> fst (list_remote_files c w))"
  by (auto simp: push_files_def test_ssh_connection_def list_remote_files_def ssh_run_def
        ssh_command_def Let_def split: prod.splits option.splits)

theorem push_needs_hostname_and_remote_dir_witness:
  "push_files [''a.txt''] [(''port'', PInt 22)] False example_world
     = (Inl (KeyError ''hostname''), example_world)
   \<and> push_files [''a.txt''] [(''hostname'', PStr ''user@host'')] False example_world
     = (Inl (KeyError ''remote_dir''), example_world)
   \<and> fst (push_files [''a.txt''] example_config False example_world) = Inr True
   \<and> \<not> fst (test_ssh_connection [(''port'', PInt 22)] example_world)
   \<and> \<not> fst (list_remote_files [(''port'', PInt 22)] example_world)
   \<and> \<not> fst (list_remote_files [(''hostname'', PStr ''user@host'')] example_world)"
  using push_needs_hostname_and_remote_dir [of "[(''port'', PInt 22)]" "[''a.txt'']" False example_world]
    push_needs_hostname_and_remote_dir [of "[(''hostname'', PStr ''user@host'')]" "[''a.txt'']" False example_world]
    push_needs_hostname_and_remote_dir [of example_config "[''a.txt'']" False example_world]
  by (simp add: push_files_def ensure_remote_directory_def push_one_def scp_command_def
        ssh_run_def subprocess_run_def ssh_command_def logging_def
        example_config_def example_world_def example_proc_def key_file_def dict_get_def
        path_exists_def str_of_int_def str_of_nat.simps digit_char_def)

section \<open>FilePusher: the loop\<close>

text \<open>
  One round of the loop starts at most one child process, a copy, and leaves the files,
  the answers of the child processes and the home directory as they were; its result is
  whether the copy of the file succeeded. So the success counter counts the files that
  exist and were copied.
\<close>

lemma str_args_map_PStr [simp]: "str_args (map PStr xs) = Inr xs"
  by (induction xs) simp_all

lemma scp_command_is_copy: "scp_command c h p rd v f w = Inr cmd \<Longrightarrow> is_copy cmd"
  by (auto simp: scp_command_def is_copy_def split: sum.splits)

lemma push_one_fields [simp]:
  "fs (snd (push_one c h p rd v f w)) = fs w"
  "proc (snd (push_one c h p rd v f w)) = proc w"
  "expanduser (snd (push_one c h p rd v f w)) = expanduser w"
  by (simp_all add: push_one_def Let_def split_beta split: sum.splits)

lemma push_one_result: "fst (push_one c h p rd v f w) = copy_exit_ok c h p rd v w f"
  by (simp add: push_one_def copy_exit_ok_def subprocess_run_def Let_def
           split: sum.splits proc_outcome.splits)

lemma push_one_procs:
  "\<exists>copies. procs (snd (push_one c h p rd v f w)) = procs w @ copies \<and> list_all is_copy copies"
  by (auto simp: push_one_def subprocess_run_def Let_def scp_command_is_copy
           split: sum.splits proc_outcome.splits)

lemma key_file_same_env:
  assumes "fs w' = fs w" "expanduser w' = expanduser w"
  shows "key_file c w' = key_file c w"
  by (simp add: key_file_def path_exists_def assms split: pyval.splits)

lemma scp_command_same_env:
  assumes "fs w' = fs w" "expanduser w' = expanduser w"
  shows "scp_command c h p rd v f w' = scp_command c h p rd v f w"
  by (simp add: scp_command_def key_file_same_env [OF assms])

lemma file_pushed_same_env:
  assumes "fs w' = fs w" "proc w' = proc w" "expanduser w' = expanduser w"
  shows "file_pushed c h p rd v w' = file_pushed c h p rd v w"
  by (simp add: fun_eq_iff file_pushed_def copy_exit_ok_def
        scp_command_same_env [OF assms(1) assms(3)] path_exists_def assms(1) assms(2)
      split: sum.splits)

lemma push_loop_fields [simp]:
  "fs (snd (push_loop c h p rd v files n w)) = fs w"
  "proc (snd (push_loop c h p rd v files n w)) = proc w"
  "expanduser (snd (push_loop c h p rd v files n w)) = expanduser w"
  by (induction files arbitrary: n w; simp add: split_beta)+

lemma push_loop_count:
  "fst (push_loop c h p rd v files n w) = n + length (filter (file_pushed c h p rd v w) files)"
proof (induction files arbitrary: n w)
  case Nil
  show ?case by simp
next
  case (Cons f rest)
  show ?case
  proof (cases "path_exists w f")
    case False
    have "file_pushed c h p rd v (logging WARNING (''File not found: '' @ f) w)
            = file_pushed c h p rd v w"
      by (rule file_pushed_same_env) simp_all
    with False show ?thesis
      by (simp add: Cons.IH file_pushed_def)
  next
    case True
    have "file_pushed c h p rd v (snd (push_one c h p rd v f w)) = file_pushed c h p rd v w"
      by (rule file_pushed_same_env) simp_all
    with True show ?thesis
      by (simp add: Cons.IH split_beta push_one_result file_pushed_def)
  qed
qed

lemma push_loop_procs:
  "\<exists>copies. procs (snd (push_loop c h p rd v files n w)) = procs w @ copies
      \<and> list_all is_copy copies"
proof (induction files arbitrary: n w)
  case Nil
  show ?case by simp
next
  case (Cons f rest)
  show ?case
  proof (cases "path_exists w f")
    case False
    then show ?thesis
      using Cons.IH [of n "logging WARNING (''File not found: '' @ f) w"] by simp
  next
    case True
    obtain c1 where c1: "procs (snd (push_one c h p rd v f w)) = procs w @ c1" "list_all is_copy c1"
      using push_one_procs by blast
    obtain c2 where c2:
      "procs (snd (push_loop c h p rd v rest
          (if fst (push_one c h p rd v f w) then n + 1 else n) (snd (push_one c h p rd v f w))))
        = procs (snd (push_one c h p rd v f w)) @ c2" "list_all is_copy c2"
      using Cons.IH by blast
    from True c1 c2 show ?thesis
      by (simp add: split_beta) 
  qed
qed

lemma all_pushed_iff_count:
  "(length (filter P xs) = length xs) = list_all P xs"
proof (induction xs)
  case Nil
  show ?case by simp
next
  case (Cons x xs)
  show ?case
    using Cons length_filter_le [of P xs] by (auto simp del: length_filter_le)
qed

text \<open>
  Claim C1, as amended. For a non-empty configuration that has \<^verbatim>\<open>hostname\<close> and
  \<^verbatim>\<open>remote_dir\<close>, a non-empty list of paths, and a remote directory that could be
  ensured, \<^verbatim>\<open>push_files\<close> returns \<^verbatim>\<open>True\<close> exactly when every path of the list exists
  locally and its copy exits with status 0. The success counter is the number of such
  paths, and the result is the comparison of the counter with the length of the list.
\<close>

theorem push_files_true_iff_all_pushed:
  assumes "c \<noteq> []" and "files \<noteq> []"
    and "map_of c ''hostname'' = Some hostname"
    and "map_of c ''remote_dir'' = Some remote_dir"
    and "fst (ensure_remote_directory c remote_dir w)"
  shows "fst (push_files files c verbose w)
           = Inr (list_all
                    (file_pushed c hostname (dict_get c ''port'' (PInt 22)) remote_dir verbose w)
                    files)
         \<and> fst (push_loop c hostname (dict_get c ''port'' (PInt 22)) remote_dir verbose files 0
                  (snd (ensure_remote_directory c remote_dir w)))
           = length (filter
                       (file_pushed c hostname (dict_get c ''port'' (PInt 22)) remote_dir verbose w)
                       files)
         \<and> fst (push_files files c verbose w)
           = Inr (fst (push_loop c hostname (dict_get c ''port'' (PInt 22)) remote_dir verbose
                        files 0 (snd (ensure_remote_directory c remote_dir w)))
                  = length files)"
proof -
  let ?w1 = "snd (ensure_remote_directory c remote_dir w)"
  let ?port = "dict_get c ''port'' (PInt 22)"
  have env: "file_pushed c hostname ?port remote_dir verbose ?w1
               = file_pushed c hostname ?port remote_dir verbose w"
    by (rule file_pushed_same_env) simp_all
  have count: "fst (push_loop c hostname ?port remote_dir verbose files 0 ?w1)
                 = length (filter (file_pushed c hostname ?port remote_dir verbose w) files)"
    by (simp add: push_loop_count env)
  have result: "fst (push_files files c verbose w)
                  = Inr (fst (push_loop c hostname ?port remote_dir verbose files 0 ?w1)
                         = length files)"
    using assms by (simp add: push_files_def split_beta Let_def)
  from count result show ?thesis
    by (simp add: all_pushed_iff_count)
qed

theorem push_files_true_iff_all_pushed_witness:
  "fst (push_files [''a.txt'', ''a.txt''] example_config False example_world) = Inr True
   \<and> fst (push_files [''a.txt'', ''b.txt''] example_config False example_world) = Inr False
   \<and> fst (push_files [''a.txt'', ''c.txt''] example_config False example_world) = Inr False
   \<and> file_pushed example_config (PStr ''user@host'') (PInt 22) (PStr ''~/work'') False
        example_world ''a.txt''
   \<and> \<not> file_pushed example_config (PStr ''user@host'') (PInt 22) (PStr ''~/work'') False
        example_world ''b.txt''
   \<and> \<not> path_exists example_world ''c.txt''"
proof -
  have ensured: "fst (ensure_remote_directory example_config (PStr ''~/work'') example_world)"
    by (simp add: ensure_remote_directory_def ssh_run_def subprocess_run_def ssh_command_def
          example_config_def example_world_def example_proc_def key_file_def dict_get_def
          path_exists_def str_of_int_def str_of_nat.simps digit_char_def)
  have a: "file_pushed example_config (PStr ''user@host'') (PInt 22) (PStr ''~/work'') False
             example_world ''a.txt''"
    by (simp add: file_pushed_def copy_exit_ok_def scp_command_def
          example_config_def example_world_def example_proc_def key_file_def dict_get_def
          path_exists_def str_of_int_def str_of_nat.simps digit_char_def)
  have b: "\<not> file_pushed example_config (PStr ''user@host'') (PInt 22) (PStr ''~/work'') False
             example_world ''b.txt''"
    by (simp add: file_pushed_def copy_exit_ok_def scp_command_def
          example_config_def example_world_def example_proc_def key_file_def dict_get_def
          path_exists_def str_of_int_def str_of_nat.simps digit_char_def)
  have c: "\<not> path_exists example_world ''c.txt''"
    by (simp add: path_exists_def example_world_def)
  have port: "dict_get example_config ''port'' (PInt 22) = PInt 22"
    by (simp add: dict_get_def example_config_def)
  have cfg: "example_config \<noteq> []" "map_of example_config ''hostname'' = Some (PStr ''user@host'')"
    "map_of example_config ''remote_dir'' = Some (PStr ''~/work'')"
    by (simp_all add: example_config_def)
  show ?thesis
    using push_files_true_iff_all_pushed [OF cfg(1) _ cfg(2) cfg(3) ensured, of "[''a.txt'', ''a.txt'']" False]
      push_files_true_iff_all_pushed [OF cfg(1) _ cfg(2) cfg(3) ensured, of "[''a.txt'', ''b.txt'']" False]
      push_files_true_iff_all_pushed [OF cfg(1) _ cfg(2) cfg(3) ensured, of "[''a.txt'', ''c.txt'']" False]
      a b c
    by (simp add: port file_pushed_def)
qed

text \<open>
  Claim C1 as stated, for every configuration and every list, fails: on the empty list
  every path of the list is pushed and the counter equals the length, and the result is
  \<^verbatim>\<open>False\<close>; and when the remote directory cannot be ensured the result is \<^verbatim>\<open>False\<close>
  although the one file exists and its copy would exit with status 0 (only the remote
  shell was started).
\<close>

theorem push_files_iff_counterexample:
  "fst (push_files [] example_config False example_world) = Inr False
   \<and> list_all (file_pushed example_config (PStr ''user@host'') (PInt 22) (PStr ''~/work'') False
                example_world) []
   \<and> fst (push_files [''a.txt''] example_config False offline_world) = Inr False
   \<and> list_all (file_pushed example_config (PStr ''user@host'') (PInt 22) (PStr ''~/work'') False
                offline_world) [''a.txt'']
   \<and> procs (snd (push_files [''a.txt''] example_config False offline_world))
       = [[''ssh'', ''-i'', ''/home/user/.ssh/id_rsa'', ''-p'', ''22'', ''user@host'', ''mkdir -p ~/work'']]"
  by (simp add: push_files_def ensure_remote_directory_def ssh_run_def subprocess_run_def
        ssh_command_def file_pushed_def copy_exit_ok_def scp_command_def Let_def
        example_config_def example_world_def offline_world_def offline_proc_def
        key_file_def dict_get_def path_exists_def str_of_int_def str_of_nat.simps digit_char_def)

section \<open>FilePusher: the remote directory comes first\<close>

text \<open>The remote shell commands of \<open>ssh_run\<close> start at most one child process, never a copy.\<close>

lemma ssh_command_is_shell:
  "ssh_command c r w = Inr cmd \<Longrightarrow> str_args cmd = Inr scmd \<Longrightarrow> is_shell scmd"
  by (auto simp: ssh_command_def is_shell_def Let_def split: option.splits sum.splits)

lemma ssh_run_procs:
  "\<exists>shells. procs (snd (ssh_run c r w)) = procs w @ shells \<and> list_all is_shell shells"
  by (auto simp: ssh_run_def subprocess_run_def ssh_command_is_shell
           split: sum.splits proc_outcome.splits)

lemma ensure_remote_directory_procs:
  "\<exists>shells. procs (snd (ensure_remote_directory c rd w)) = procs w @ shells
      \<and> list_all is_shell shells"
  using ssh_run_procs [of c "''mkdir -p '' @ py_str rd" w]
  by (auto simp: ensure_remote_directory_def split: prod.splits sum.splits)

text \<open>
  Claim C6, as amended. For a non-empty configuration that has \<^verbatim>\<open>hostname\<close> and
  \<^verbatim>\<open>remote_dir\<close> and a non-empty list of paths, the child processes that \<^verbatim>\<open>push_files\<close>
  starts are those of \<^verbatim>\<open>ensure_remote_directory\<close>, all remote shells, followed by
  copies only; and when \<^verbatim>\<open>ensure_remote_directory\<close> returns \<^verbatim>\<open>False\<close>, no copy is started
  and the result is \<^verbatim>\<open>False\<close>. When \<^verbatim>\<open>hostname\<close> or \<^verbatim>\<open>remote_dir\<close> is missing,
  \<^verbatim>\<open>push_files\<close> raises before anything is started.
\<close>

theorem ensure_before_any_copy:
  assumes "c \<noteq> []" and "files \<noteq> []"
  shows "(map_of c ''hostname'' = None \<or> map_of c ''remote_dir'' = None
            \<longrightarrow> (\<exists>e. push_files files c verbose w = (Inl e, w)))
         \<and> (\<forall>hostname remote_dir.
               map_of c ''hostname'' = Some hostname \<and> map_of c ''remote_dir'' = Some remote_dir
               \<longrightarrow> (\<exists>shells copies.
                      procs (snd (ensure_remote_directory c remote_dir w)) = procs w @ shells
                      \<and> list_all is_shell shells
                      \<and> procs (snd (push_files files c verbose w)) = procs w @ shells @ copies
                      \<and> list_all is_copy copies
                      \<and> (\<not> fst (ensure_remote_directory c remote_dir w)
                           \<longrightarrow> copies = [] \<and> fst (push_files files c verbose w) = Inr False)))"
proof (intro conjI allI impI)
  assume "map_of c ''hostname'' = None \<or> map_of c ''remote_dir'' = None"
  with assms show "\<exists>e. push_files files c verbose w = (Inl e, w)"
    by (auto simp: push_files_def Let_def split: option.splits)
next
  fix hostname remote_dir
  assume fields: "map_of c ''hostname'' = Some hostname \<and> map_of c ''remote_dir'' = Some remote_dir"
  let ?e = "ensure_remote_directory c remote_dir w"
  let ?port = "dict_get c ''port'' (PInt 22)"
  obtain shells where shells: "procs (snd ?e) = procs w @ shells" "list_all is_shell shells"
    using ensure_remote_directory_procs by blast
  show "\<exists>shells copies.
          procs (snd ?e) = procs w @ shells \<and> list_all is_shell shells
          \<and> procs (snd (push_files files c verbose w)) = procs w @ shells @ copies
          \<and> list_all is_copy copies
          \<and> (\<not> fst ?e \<longrightarrow> copies = [] \<and> fst (push_files files c verbose w) = Inr False)"
  proof (cases "fst ?e")
    case False
    with assms fields have "fst (push_files files c verbose w) = Inr False"
      and "procs (snd (push_files files c verbose w)) = procs (snd ?e)"
      by (simp_all add: push_files_def Let_def split_beta)
    with shells False show ?thesis by auto
  next
    case True
    obtain copies where copies:
      "procs (snd (push_loop c hostname ?port remote_dir verbose files 0 (snd ?e)))
         = procs (snd ?e) @ copies" "list_all is_copy copies"
      using push_loop_procs by blast
    from assms fields True have
      "procs (snd (push_files files c verbose w))
         = procs (snd (push_loop c hostname ?port remote_dir verbose files 0 (snd ?e)))"
      by (simp add: push_files_def Let_def split_beta)
    with shells copies True show ?thesis by auto
  qed
qed

theorem ensure_before_any_copy_witness:
  "procs (snd (push_files [''a.txt'', ''b.txt''] example_config False example_world))
     = [[''ssh'', ''-i'', ''/home/user/.ssh/id_rsa'', ''-p'', ''22'', ''user@host'', ''mkdir -p ~/work''],
        [''scp'', ''-P'', ''22'', ''-i'', ''/home/user/.ssh/id_rsa'', ''a.txt'', ''user@host:~/work/''],
        [''scp'', ''-P'', ''22'', ''-i'', ''/home/user/.ssh/id_rsa'', ''b.txt'', ''user@host:~/work/'']]
   \<and> \<not> fst (ensure_remote_directory example_config (PStr ''~/work'') offline_world)
   \<and> fst (push_files [''a.txt'', ''b.txt''] example_config False offline_world) = Inr False
   \<and> procs (snd (push_files [''a.txt'', ''b.txt''] example_config False offline_world))
       = procs (snd (ensure_remote_directory example_config (PStr ''~/work'') offline_world))"
proof -
  have cfg: "example_config \<noteq> []" "[''a.txt'', ''b.txt''] \<noteq> []"
    "map_of example_config ''hostname'' = Some (PStr ''user@host'')
     \<and> map_of example_config ''remote_dir'' = Some (PStr ''~/work'')"
    by (simp_all add: example_config_def)
  have off: "\<not> fst (ensure_remote_directory example_config (PStr ''~/work'') offline_world)"
    by (simp add: ensure_remote_directory_def ssh_run_def subprocess_run_def ssh_command_def
          example_config_def example_world_def offline_world_def offline_proc_def
          key_file_def dict_get_def path_exists_def str_of_int_def str_of_nat.simps digit_char_def)
  have run: "procs (snd (push_files [''a.txt'', ''b.txt''] example_config False example_world))
     = [[''ssh'', ''-i'', ''/home/user/.ssh/id_rsa'', ''-p'', ''22'', ''user@host'', ''mkdir -p ~/work''],
        [''scp'', ''-P'', ''22'', ''-i'', ''/home/user/.ssh/id_rsa'', ''a.txt'', ''user@host:~/work/''],
        [''scp'', ''-P'', ''22'', ''-i'', ''/home/user/.ssh/id_rsa'', ''b.txt'', ''user@host:~/work/'']]"
    by (simp add: push_files_def push_one_def scp_command_def ensure_remote_directory_def
          ssh_run_def subprocess_run_def ssh_command_def logging_def Let_def
          example_config_def example_world_def example_proc_def
          key_file_def dict_get_def path_exists_def str_of_int_def str_of_nat.simps digit_char_def)
  from ensure_before_any_copy [OF cfg(1) cfg(2), of False offline_world] cfg(3) off run
  show ?thesis by auto
qed

text \<open>
  Claim C6 as stated, for every non-empty configuration, fails on a configuration
  without \<^verbatim>\<open>hostname\<close>: \<^verbatim>\<open>ensure_remote_directory\<close> would return \<^verbatim>\<open>False\<close> on it, but
  \<^verbatim>\<open>push_files\<close> reads \<^verbatim>\<open>config['hostname']\<close> before it calls anything, so it raises
  \<^verbatim>\<open>KeyError\<close> instead of returning \<^verbatim>\<open>False\<close>, and the state is untouched; likewise
  without \<^verbatim>\<open>remote_dir\<close>.
\<close>

theorem ensure_before_any_copy_counterexample:
  "push_files [''a.txt''] [(''remote_dir'', PStr ''~/work'')] False example_world
     = (Inl (KeyError ''hostname''), example_world)
   \<and> \<not> fst (ensure_remote_directory [(''remote_dir'', PStr ''~/work'')] (PStr ''~/work'')
              example_world)
   \<and> push_files [''a.txt''] [(''hostname'', PStr ''user@host'')] False example_world
     = (Inl (KeyError ''remote_dir''), example_world)"
  by (simp add: push_files_def ensure_remote_directory_def ssh_run_def ssh_command_def)

section \<open>InteractiveConfigurator: the prompt sequences and the flows\<close>

text \<open>
  Rules that follow the structure of a prompt sequence: what it changes in the state,
  and what holds for the record it returns. The probe gives the same answer in two
  states with the same environment, and a flow is its prompts followed by the probe,
  which decides whether the record is saved.
\<close>

lemma inputs_onlyI: "(\<And>w. snd (m w) = w\<lparr>inputs := g w\<rparr>) \<Longrightarrow> inputs_only m"
  unfolding inputs_only_def by blast

lemma inputs_onlyD: "inputs_only m \<Longrightarrow> \<exists>ls. snd (m w) = w\<lparr>inputs := ls\<rparr>"
  unfolding inputs_only_def by blast


lemma inputs_only_py_input [simp]: "inputs_only py_input"
  by (rule inputs_onlyI [where g = "\<lambda>w. tl (inputs w)"])
     (simp add: py_input_def split: list.splits)

lemma inputs_only_on_inputs [simp]: "inputs_only (on_inputs rd)"
  by (rule inputs_onlyI [where g = "\<lambda>w. snd (rd (inputs w))"])
     (simp add: on_inputs_def split: prod.splits)

lemma inputs_only_returning [simp]: "inputs_only (returning a)"
  by (rule inputs_onlyI [where g = inputs]) (simp add: returning_def)

lemma inputs_only_raising [simp]: "inputs_only (raising e)"
  by (rule inputs_onlyI [where g = inputs]) (simp add: raising_def)

lemma inputs_only_and_then:
  assumes "inputs_only m" and "\<And>a. inputs_only (f a)"
  shows "inputs_only (and_then m f)"
  unfolding inputs_only_def
proof
  fix w
  obtain r w1 where m: "m w = (r, w1)" by force
  from inputs_onlyD [OF assms(1), of w] m obtain ls where w1: "w1 = w\<lparr>inputs := ls\<rparr>"
    by auto
  show "\<exists>ls. snd (and_then m f w) = w\<lparr>inputs := ls\<rparr>"
  proof (cases r)
    case (Inl e)
    with m w1 show ?thesis by (auto simp: and_then_def)
  next
    case (Inr a)
    from inputs_onlyD [OF assms(2), of a w1] obtain ls'
      where "snd (f a w1) = w1\<lparr>inputs := ls'\<rparr>" by blast
    with m w1 Inr show ?thesis by (auto simp: and_then_def)
  qed
qed






lemma inputs_only_Let: "(\<And>x. inputs_only (f x)) \<Longrightarrow> inputs_only (Let a f)"
  by simp

lemma inputs_only_if:
  "inputs_only m \<Longrightarrow> inputs_only n \<Longrightarrow> inputs_only (if b then m else n)"
  by simp

lemma inputs_only_case_option:
  "inputs_only m \<Longrightarrow> (\<And>x. inputs_only (f x)) \<Longrightarrow> inputs_only (case_option m f v)"
  by (cases v) simp_all

lemmas inputs_only_intros =
  inputs_only_and_then inputs_only_Let inputs_only_if inputs_only_case_option
  inputs_only_py_input inputs_only_on_inputs inputs_only_returning inputs_only_raising

lemma inputs_only_create_prompts: "inputs_only create_prompts"
  unfolding create_prompts_def by (intro inputs_only_intros)

lemma inputs_only_edit_prompts: "inputs_only (edit_prompts ex)"
  unfolding edit_prompts_def by (intro inputs_only_intros)










lemma same_env_refl [simp]: "same_env w w"
  by (simp add: same_env_def)

lemma same_env_trans: "same_env w2 w1 \<Longrightarrow> same_env w1 w \<Longrightarrow> same_env w2 w"
  by (simp add: same_env_def)

lemma same_env_logging [simp]: "same_env (logging lvl msg w) w"
  by (simp add: same_env_def)

lemma same_env_inputs [simp]: "same_env (w\<lparr>inputs := ls\<rparr>) w"
  by (simp add: same_env_def)

lemma inputs_only_same_env: "inputs_only m \<Longrightarrow> same_env (snd (m w)) w"
  using inputs_onlyD [of m w] by auto

lemma same_env_test_ssh_connection: "same_env (snd (test_ssh_connection c w)) w"
  by (simp add: same_env_def)

lemma ssh_command_same_env:
  assumes "same_env w' w"
  shows "ssh_command c r w' = ssh_command c r w"
proof -
  from assms have eq: "key_file c w' = key_file c w"
    by (intro key_file_same_env) (simp_all add: same_env_def)
  show ?thesis unfolding ssh_command_def eq ..
qed

lemma subprocess_run_result_same_env:
  "same_env w' w \<Longrightarrow> fst (subprocess_run args t w') = fst (subprocess_run args t w)"
  by (simp add: subprocess_run_def same_env_def split: sum.splits proc_outcome.splits)

lemma ssh_run_result_same_env:
  assumes "same_env w' w"
  shows "fst (ssh_run c r w') = fst (ssh_run c r w)"
proof (cases "ssh_command c r w")
  case (Inl e)
  then show ?thesis by (simp add: ssh_run_def ssh_command_same_env [OF assms])
next
  case (Inr cmd)
  then show ?thesis
    by (simp add: ssh_run_def ssh_command_same_env [OF assms]
          subprocess_run_result_same_env [OF assms])
qed

lemma test_ssh_connection_result:
  "fst (test_ssh_connection c w)
     = (case fst (ssh_run c probe_command w) of
          Inl e \<Rightarrow> False
        | Inr (rc, out, err) \<Rightarrow> rc = 0 \<and> str_contains probe_marker out)"
  by (simp add: test_ssh_connection_def split: prod.splits sum.splits)

lemma test_result_same_env:
  "same_env w' w \<Longrightarrow> fst (test_ssh_connection c w') = fst (test_ssh_connection c w)"
  by (simp add: test_ssh_connection_result ssh_run_result_same_env)

lemma probe_and_save_fails:
  "\<not> fst (test_ssh_connection c w)
     \<Longrightarrow> probe_and_save c w = (Inr [], snd (test_ssh_connection c w))"
  by (simp add: probe_and_save_def split_beta)

lemma probe_and_save_succeeds:
  "fst (test_ssh_connection c w)
     \<Longrightarrow> probe_and_save c w = (Inr c, save_config c (snd (test_ssh_connection c w)))"
  by (simp add: probe_and_save_def split_beta)

lemma flow_raises:
  "fst (prompts w) = Inl e \<Longrightarrow> and_then prompts probe_and_save w = (Inl e, snd (prompts w))"
  by (simp add: and_then_def split_beta split: sum.splits)

lemma flow_probe_fails:
  assumes "inputs_only prompts" and "fst (prompts w) = Inr c"
    and "\<not> fst (test_ssh_connection c w)"
  shows "and_then prompts probe_and_save w
           = (Inr [], snd (test_ssh_connection c (snd (prompts w))))"
proof -
  have "\<not> fst (test_ssh_connection c (snd (prompts w)))"
    using assms(3) test_result_same_env [OF inputs_only_same_env [OF assms(1)], of c w] by simp
  with assms(2) show ?thesis
    by (simp add: and_then_def split_beta probe_and_save_fails)
qed

lemma flow_probe_succeeds:
  assumes "inputs_only prompts" and "fst (prompts w) = Inr c"
    and "fst (test_ssh_connection c w)"
  shows "and_then prompts probe_and_save w
           = (Inr c, save_config c (snd (test_ssh_connection c (snd (prompts w)))))"
proof -
  have "fst (test_ssh_connection c (snd (prompts w)))"
    using assms(3) test_result_same_env [OF inputs_only_same_env [OF assms(1)], of c w] by simp
  with assms(2) show ?thesis
    by (simp add: and_then_def split_beta probe_and_save_succeeds)
qed

lemma flow_fs_unchanged_or_saved:
  assumes "inputs_only prompts"
  shows "(fs (snd (and_then prompts probe_and_save w)) = fs w
            \<and> (fst (and_then prompts probe_and_save w) = Inr []
                \<or> (\<exists>e. fst (and_then prompts probe_and_save w) = Inl e)))
         \<or> (\<exists>c. fst (prompts w) = Inr c \<and> fst (test_ssh_connection c w)
                \<and> fst (and_then prompts probe_and_save w) = Inr c
                \<and> snd (and_then prompts probe_and_save w)
                    = save_config c (snd (test_ssh_connection c (snd (prompts w)))))"
proof (cases "fst (prompts w)")
  case (Inl e)
  have "fs (snd (prompts w)) = fs w"
    using inputs_only_same_env [OF assms, of w] by (simp add: same_env_def)
  with flow_raises [of prompts w e] Inl show ?thesis by simp
next
  case (Inr c)
  show ?thesis
  proof (cases "fst (test_ssh_connection c w)")
    case True
    from flow_probe_succeeds [OF assms Inr True] Inr True show ?thesis by simp
  next
    case False
    have "fs (snd (prompts w)) = fs w"
      using inputs_only_same_env [OF assms, of w] by (simp add: same_env_def)
    with flow_probe_fails [OF assms Inr False] show ?thesis by simp
  qed
qed





lemma same_env_load_config: "same_env (snd (load_config w)) w"
  by (simp add: load_config_def split: option.splits json_outcome.splits)

lemma setup_ssh_config_fresh:
  "fst (load_config w) = Inr (Record [])
     \<Longrightarrow> setup_ssh_config w = create_config (snd (load_config w))"
  by (simp add: setup_ssh_config_def and_then_def split_beta)

lemma setup_ssh_config_cases:
  "\<exists>w1 ex0. same_env w1 w
     \<and> (setup_ssh_config w = create_config w1
         \<or> (fst (load_config w) = Inr (Record ex0) \<and> ex0 \<noteq> []
             \<and> setup_ssh_config w = edit_ssh_config ex0 w1)
         \<or> setup_ssh_config w = (Inr [], w1)
         \<or> (\<exists>e. setup_ssh_config w = (Inl e, w1)))"
proof -
  let ?w0 = "snd (load_config w)"
  let ?w1 = "snd (on_inputs read_option ?w0)"
  have env0: "same_env ?w0 w" by (rule same_env_load_config)
  have env1: "same_env ?w1 w"
    by (rule same_env_trans [OF inputs_only_same_env same_env_load_config]) simp
  show ?thesis
  proof (cases "fst (load_config w)")
    case (Inl e)
    then have "setup_ssh_config w = (Inl e, ?w0)"
      by (simp add: setup_ssh_config_def and_then_def split_beta)
    with env0 show ?thesis by blast
  next
    case (Inr existing)
    show ?thesis
    proof (cases existing)
      case (NotRecord truth ty)
      with Inr have "setup_ssh_config w = create_config ?w0
                     \<or> (\<exists>e. setup_ssh_config w = (Inl e, ?w0))"
        by (simp add: setup_ssh_config_def and_then_def split_beta raising_def)
      with env0 show ?thesis by blast
    next
      case (Record ex0)
      show ?thesis
      proof (cases "ex0 = []")
        case True
        with Inr Record have "setup_ssh_config w = create_config ?w0"
          by (simp add: setup_ssh_config_fresh)
        with env0 show ?thesis by blast
      next
        case False
        have "setup_ssh_config w = create_config ?w1
              \<or> setup_ssh_config w = edit_ssh_config ex0 ?w1
              \<or> setup_ssh_config w = (Inr [], ?w1)
              \<or> (\<exists>e. setup_ssh_config w = (Inl e, ?w1))"
          using False Inr Record
          by (cases "fst (on_inputs read_option ?w0)")
             (auto simp: setup_ssh_config_def split_beta and_then_def returning_def
                   split: sum.splits menu_choice.splits)
        with env1 False Inr Record show ?thesis by blast
      qed
    qed
  qed
qed

section \<open>InteractiveConfigurator: saving depends on the probe\<close>

text \<open>
  Claim C7. In the edit flow and in the create flow, when the probe of the record that
  the prompts produced fails, the flow returns the empty record and the files are as
  before, the configuration file among them. A flow that changed a file returned the
  record that the prompts produced, and the probe of that record succeeded. The same
  holds for \<^verbatim>\<open>setup_ssh_config\<close> as a whole, which runs one of the two flows or is
  cancelled: it changes a file only when it returns a record whose probe succeeds, and a
  returned record whose probe fails is the empty record, with the files as before.
\<close>

theorem persist_only_after_probe:
  "(\<forall>c. fst (edit_prompts ex w) = Inr c \<and> \<not> fst (test_ssh_connection c w)
        \<longrightarrow> fst (edit_ssh_config ex w) = Inr [] \<and> fs (snd (edit_ssh_config ex w)) = fs w)
   \<and> (\<forall>c. fst (create_prompts w) = Inr c \<and> \<not> fst (test_ssh_connection c w)
        \<longrightarrow> fst (create_config w) = Inr [] \<and> fs (snd (create_config w)) = fs w)
   \<and> (fs (snd (edit_ssh_config ex w)) \<noteq> fs w
        \<longrightarrow> (\<exists>c. fst (edit_prompts ex w) = Inr c \<and> fst (test_ssh_connection c w)
                 \<and> fst (edit_ssh_config ex w) = Inr c))
   \<and> (fs (snd (create_config w)) \<noteq> fs w
        \<longrightarrow> (\<exists>c. fst (create_prompts w) = Inr c \<and> fst (test_ssh_connection c w)
                 \<and> fst (create_config w) = Inr c))
   \<and> (fs (snd (setup_ssh_config w)) \<noteq> fs w
        \<longrightarrow> (\<exists>c. fst (setup_ssh_config w) = Inr c \<and> fst (test_ssh_connection c w)))
   \<and> (\<forall>c. fst (setup_ssh_config w) = Inr c \<and> \<not> fst (test_ssh_connection c w)
        \<longrightarrow> c = [] \<and> fs (snd (setup_ssh_config w)) = fs w)"
proof -
  have fails: "fst (and_then prompts probe_and_save w0) = Inr []
                 \<and> fs (snd (and_then prompts probe_and_save w0)) = fs w0"
    if "inputs_only prompts" "fst (prompts w0) = Inr c" "\<not> fst (test_ssh_connection c w0)"
    for prompts w0 c
  proof -
    have "fs (snd (prompts w0)) = fs w0"
      using inputs_only_same_env [OF that(1), of w0] by (simp add: same_env_def)
    with flow_probe_fails [OF that] show ?thesis by simp
  qed
  have changed: "\<exists>c. fst (prompts w0) = Inr c \<and> fst (test_ssh_connection c w0)
                   \<and> fst (and_then prompts probe_and_save w0) = Inr c"
    if "inputs_only prompts" "fs (snd (and_then prompts probe_and_save w0)) \<noteq> fs w0"
    for prompts w0
    using flow_fs_unchanged_or_saved [OF that(1), of w0] that(2) by blast
  have returned: "c = [] \<and> fs (snd (and_then prompts probe_and_save w0)) = fs w0"
    if "inputs_only prompts" "fst (and_then prompts probe_and_save w0) = Inr c"
      "\<not> fst (test_ssh_connection c w0)"
    for prompts w0 c
    using flow_fs_unchanged_or_saved [OF that(1), of w0] that(2) that(3) by auto
  obtain w1 ex0 where env: "same_env w1 w"
    and cases: "setup_ssh_config w = create_config w1
         \<or> setup_ssh_config w = edit_ssh_config ex0 w1
         \<or> setup_ssh_config w = (Inr [], w1)
         \<or> (\<exists>e. setup_ssh_config w = (Inl e, w1))"
    using setup_ssh_config_cases [of w] by blast
  from env have fs1: "fs w1 = fs w" by (simp add: same_env_def)
  have probe1: "fst (test_ssh_connection c w1) = fst (test_ssh_connection c w)" for c
    by (rule test_result_same_env [OF env])
  from cases consider
      (create) "setup_ssh_config w = and_then create_prompts probe_and_save w1"
    | (edit) "setup_ssh_config w
                = and_then (edit_prompts ex0) probe_and_save w1"
    | (cancel) "setup_ssh_config w = (Inr [], w1)"
    | (raised) e where "setup_ssh_config w = (Inl e, w1)"
    unfolding create_config_def edit_ssh_config_def by blast
  note flows = this
  have setup_changed: "\<exists>c. fst (setup_ssh_config w) = Inr c \<and> fst (test_ssh_connection c w)"
    if diff: "fs (snd (setup_ssh_config w)) \<noteq> fs w"
  proof (cases rule: flows)
    case create
    with diff fs1 have "fs (snd (and_then create_prompts probe_and_save w1)) \<noteq> fs w1" by simp
    from changed [OF inputs_only_create_prompts this] create probe1 show ?thesis by auto
  next
    case edit
    with diff fs1
    have "fs (snd (and_then (edit_prompts ex0) probe_and_save w1)) \<noteq> fs w1"
      by simp
    from changed [OF inputs_only_edit_prompts this] edit probe1 show ?thesis by auto
  next
    case cancel
    with diff fs1 show ?thesis by simp
  next
    case (raised e)
    with diff fs1 show ?thesis by simp
  qed
  have setup_returned: "c = [] \<and> fs (snd (setup_ssh_config w)) = fs w"
    if ret: "fst (setup_ssh_config w) = Inr c" and bad: "\<not> fst (test_ssh_connection c w)" for c
  proof (cases rule: flows)
    case create
    from bad probe1 have "\<not> fst (test_ssh_connection c w1)" by simp
    from returned [OF inputs_only_create_prompts _ this] ret create fs1 show ?thesis by simp
  next
    case edit
    from bad probe1 have "\<not> fst (test_ssh_connection c w1)" by simp
    from returned [OF inputs_only_edit_prompts _ this] ret edit fs1 show ?thesis by simp
  next
    case cancel
    with ret fs1 show ?thesis by simp
  next
    case (raised e)
    with ret show ?thesis by simp
  qed
  show ?thesis
    using fails [OF inputs_only_edit_prompts, of ex w]
      fails [OF inputs_only_create_prompts, of w]
      changed [OF inputs_only_edit_prompts, of ex w]
      changed [OF inputs_only_create_prompts, of w]
      setup_changed setup_returned
    unfolding create_config_def edit_ssh_config_def
    by (intro conjI allI impI) blast+
qed

theorem persist_only_after_probe_witness:
  "fst (edit_ssh_config example_config (offline_world\<lparr>inputs := ['''', '''', '''', '''', '''']\<rparr>))
     = Inr []
   \<and> fs (snd (edit_ssh_config example_config
               (offline_world\<lparr>inputs := ['''', '''', '''', '''', '''']\<rparr>)))
       = fs offline_world
   \<and> fst (create_config (offline_world\<lparr>inputs := [''user@host'', '''', '''', ''2'']\<rparr>)) = Inr []
   \<and> fs (snd (create_config (offline_world\<lparr>inputs := [''user@host'', '''', '''', ''2'']\<rparr>)))
       = fs offline_world
   \<and> fst (test_ssh_connection example_config example_world)
   \<and> fst (edit_ssh_config example_config (example_world\<lparr>inputs := ['''', '''', '''', '''', '''']\<rparr>))
       = Inr example_config"
proof -
  let ?w = "offline_world\<lparr>inputs := ['''', '''', '''', '''', '''']\<rparr>"
  let ?v = "offline_world\<lparr>inputs := [''user@host'', '''', '''', ''2'']\<rparr>"
  let ?c = "[(''hostname'', PStr ''user@host''), (''port'', PInt 22),
             (''remote_dir'', PStr ''~/fpga_work''), (''auth_method'', PStr ''password'')]"
  have edited: "fst (edit_prompts example_config ?w) = Inr example_config"
    by code_simp
  have created: "fst (create_prompts ?v) = Inr ?c"
    by code_simp
  have offline: "\<not> fst (test_ssh_connection example_config ?w)"
    "\<not> fst (test_ssh_connection ?c ?v)"
    by code_simp+
  have online: "fst (test_ssh_connection example_config example_world)"
    "fst (edit_ssh_config example_config (example_world\<lparr>inputs := ['''', '''', '''', '''', '''']\<rparr>))
       = Inr example_config"
    by code_simp+
  from persist_only_after_probe [of example_config ?w] edited offline(1)
  have "fst (edit_ssh_config example_config ?w) = Inr []
        \<and> fs (snd (edit_ssh_config example_config ?w)) = fs ?w"
    by blast
  moreover from persist_only_after_probe [of "[]" ?v] created offline(2)
  have "fst (create_config ?v) = Inr [] \<and> fs (snd (create_config ?v)) = fs ?v"
    by blast
  ultimately show ?thesis using online by simp
qed

section \<open>InteractiveConfigurator: editing\<close>

text \<open>
  After three blank answers the edit flow still holds the existing record, and what
  follows depends on the answer to the authentication prompt.
\<close>

lemma and_then_py_input:
  "inputs w = l # ls \<Longrightarrow> and_then py_input f w = f l (w\<lparr>inputs := ls\<rparr>)"
  by (simp add: and_then_def py_input_def)

lemma isdigit_blank [simp]: "\<not> isdigit []"
  by (simp add: isdigit_def)

lemma edit_prompts_four_lines:
  assumes "inputs w = l1 # l2 # l3 # l4 # rest"
    and "strip l1 = []" and "strip l2 = []" and "strip l3 = []"
  shows "edit_prompts ex w
           = (let auth_choice = strip l4;
                  c4 = (if auth_choice = ''1'' then AList.update ''auth_method'' (PStr ''key'') ex
                        else if auth_choice = ''2''
                        then AList.update ''auth_method'' (PStr ''password'') ex
                        else ex)
              in case map_of c4 ''auth_method'' of
                   None \<Rightarrow> raising (KeyError ''auth_method'')
                 | Some auth \<Rightarrow>
                     if auth = PStr ''key'' then
                       and_then py_input (\<lambda>l5.
                         let key_path = strip l5
                         in returning
                              (if key_path \<noteq> [] then AList.update ''key_path'' (PStr key_path) c4
                               else c4))
                     else returning c4) (w\<lparr>inputs := rest\<rparr>)"
  unfolding edit_prompts_def
  by (simp add: and_then_py_input assms)

text \<open>
  With a blank answer to every prompt, a record that has an \<^verbatim>\<open>auth_method\<close> comes back
  as it is: after four answers when the method is not \<^verbatim>\<open>key\<close>, after five when it is.
\<close>

lemma edit_blank_keeps_record:
  assumes "inputs w = l1 # l2 # l3 # l4 # rest"
    and "strip l1 = []" and "strip l2 = []" and "strip l3 = []" and "strip l4 = []"
    and "map_of ex ''auth_method'' = Some a"
  shows "a \<noteq> PStr ''key'' \<Longrightarrow> edit_prompts ex w = (Inr ex, w\<lparr>inputs := rest\<rparr>)"
    and "a = PStr ''key'' \<Longrightarrow> rest = l5 # rest' \<Longrightarrow> strip l5 = []
           \<Longrightarrow> edit_prompts ex w = (Inr ex, w\<lparr>inputs := rest'\<rparr>)"
  using assms
  by (simp_all add: edit_prompts_four_lines [OF assms(1-4)] returning_def and_then_py_input)

text \<open>
  Claim C8 fails on a record that has no \<^verbatim>\<open>auth_method\<close>: line 168 reads the method
  with the default \<^verbatim>\<open>key\<close> for the prompt, but line 180 indexes the record, so with a
  blank answer to every prompt \<^verbatim>\<open>edit_ssh_config\<close> raises \<^verbatim>\<open>KeyError\<close> after the
  fourth answer instead of producing the record unchanged.
\<close>

theorem edit_blank_without_auth_method:
  assumes "inputs w = l1 # l2 # l3 # l4 # rest"
    and "strip l1 = []" and "strip l2 = []" and "strip l3 = []" and "strip l4 = []"
    and "map_of ex ''auth_method'' = None"
  shows "edit_prompts ex w = (Inl (KeyError ''auth_method''), w\<lparr>inputs := rest\<rparr>)
         \<and> edit_ssh_config ex w = (Inl (KeyError ''auth_method''), w\<lparr>inputs := rest\<rparr>)"
  using assms(5,6)
  by (simp add: edit_ssh_config_def and_then_def edit_prompts_four_lines [OF assms(1-4)]
        raising_def)

theorem edit_blank_without_auth_method_witness:
  "edit_ssh_config
     [(''hostname'', PStr ''user@host''), (''port'', PInt 22), (''remote_dir'', PStr ''~/work'')]
     (example_world\<lparr>inputs := ['''', '''', '''', '''']\<rparr>)
   = (Inl (KeyError ''auth_method''), example_world\<lparr>inputs := []\<rparr>)"
  using edit_blank_without_auth_method
    [of "example_world\<lparr>inputs := ['''', '''', '''', '''']\<rparr>" "''''" "''''" "''''" "''''" "[]"
        "[(''hostname'', PStr ''user@host''), (''port'', PInt 22), (''remote_dir'', PStr ''~/work'')]"]
  by (simp add: strip_def)

text \<open>
  Claim C9. With blank answers to the first three prompts and the answer 2 to the
  authentication prompt, the edit flow asks nothing more and produces the existing
  record with \<^verbatim>\<open>auth_method\<close> set to \<^verbatim>\<open>password\<close>: the fields \<^verbatim>\<open>hostname\<close>, \<^verbatim>\<open>port\<close>
  and \<^verbatim>\<open>remote_dir\<close> are as in the existing record, absent ones staying absent.
  \<^verbatim>\<open>edit_ssh_config\<close> returns that record when its probe succeeds, and the empty
  record otherwise.
\<close>

theorem edit_password_keeps_connection_fields:
  assumes "inputs w = l1 # l2 # l3 # l4 # rest"
    and "strip l1 = []" and "strip l2 = []" and "strip l3 = []" and "strip l4 = ''2''"
  shows "edit_prompts ex w
           = (Inr (AList.update ''auth_method'' (PStr ''password'') ex), w\<lparr>inputs := rest\<rparr>)
         \<and> map_of (AList.update ''auth_method'' (PStr ''password'') ex) ''hostname''
             = map_of ex ''hostname''
         \<and> map_of (AList.update ''auth_method'' (PStr ''password'') ex) ''port''
             = map_of ex ''port''
         \<and> map_of (AList.update ''auth_method'' (PStr ''password'') ex) ''remote_dir''
             = map_of ex ''remote_dir''
         \<and> fst (edit_ssh_config ex w)
             = Inr (if fst (test_ssh_connection
                              (AList.update ''auth_method'' (PStr ''password'') ex) w)
                    then AList.update ''auth_method'' (PStr ''password'') ex else [])"
proof -
  let ?c = "AList.update ''auth_method'' (PStr ''password'') ex"
  have prompts: "edit_prompts ex w = (Inr ?c, w\<lparr>inputs := rest\<rparr>)"
    using assms(5)
    by (simp add: edit_prompts_four_lines [OF assms(1-4)] returning_def update_conv')
  have probe: "fst (test_ssh_connection ?c (w\<lparr>inputs := rest\<rparr>)) = fst (test_ssh_connection ?c w)"
    by (rule test_result_same_env) simp
  have "fst (edit_ssh_config ex w) = Inr (if fst (test_ssh_connection ?c w) then ?c else [])"
    by (simp add: edit_ssh_config_def and_then_def prompts probe_and_save_def split_beta probe)
  with prompts show ?thesis by (simp add: update_conv')
qed

theorem edit_password_keeps_connection_fields_witness:
  "edit_prompts example_config (example_world\<lparr>inputs := ['' '', '''', '''', '' 2 '']\<rparr>)
     = (Inr [(''hostname'', PStr ''user@host''), (''port'', PInt 22),
             (''remote_dir'', PStr ''~/work''), (''auth_method'', PStr ''password''),
             (''key_path'', PStr ''~/.ssh/id_rsa'')],
        example_world\<lparr>inputs := []\<rparr>)
   \<and> fst (edit_ssh_config example_config (example_world\<lparr>inputs := ['' '', '''', '''', '' 2 '']\<rparr>))
     = Inr [(''hostname'', PStr ''user@host''), (''port'', PInt 22),
            (''remote_dir'', PStr ''~/work''), (''auth_method'', PStr ''password''),
            (''key_path'', PStr ''~/.ssh/id_rsa'')]"
proof -
  let ?w = "example_world\<lparr>inputs := ['' '', '''', '''', '' 2 '']\<rparr>"
  have blank: "strip '' '' = []" "strip [] = []" "strip '' 2 '' = ''2''"
    by code_simp+
  have upd: "AList.update ''auth_method'' (PStr ''password'') example_config
               = [(''hostname'', PStr ''user@host''), (''port'', PInt 22),
                  (''remote_dir'', PStr ''~/work''), (''auth_method'', PStr ''password''),
                  (''key_path'', PStr ''~/.ssh/id_rsa'')]"
    by code_simp
  have probe: "fst (test_ssh_connection
                 [(''hostname'', PStr ''user@host''), (''port'', PInt 22),
                  (''remote_dir'', PStr ''~/work''), (''auth_method'', PStr ''password''),
                  (''key_path'', PStr ''~/.ssh/id_rsa'')] ?w)"
    by code_simp
  from edit_password_keeps_connection_fields
         [of ?w "'' ''" "''''" "''''" "'' 2 ''" "[]" example_config] blank upd probe
  show ?thesis by simp
qed

section \<open>InteractiveConfigurator: the records it saves\<close>












end
